theory Spec2Isabelle
  imports Main
begin

section \<open>Values, decode results and thrown errors\<close>

text \<open>
  The decoders of \<^verbatim>\<open>src/data/Api.ts\<close> run on untyped data, typically parsed JSON. The
  embedding works on the run-time values, where the type parameters \<^verbatim>\<open>E\<close>, \<^verbatim>\<open>T\<close> and
  \<^verbatim>\<open>D\<close> of the source are erased: a value is \<^verbatim>\<open>undefined\<close>, \<^verbatim>\<open>null\<close>, a boolean, a
  number, a string, an array or a plain object. An object is the list of its own
  properties; \<^term>\<open>map_of\<close> reads a property. Numbers play no role in the file and are
  integers here.
\<close>

datatype js_value =
    JUndefined
  | JNull
  | JBoolean bool
  | JNumber int
  | JString string
  | JArray "js_value list"
  | JObject "(string \<times> js_value) list"

text \<open>
  A failed decode carries an annotation that says which expectation was violated; a
  \<^verbatim>\<open>throw\<close> carries an error object. \<^verbatim>\<open>verify\<close> throws an error built from an
  annotation and \<^verbatim>\<open>transform\<close> turns a thrown error back into an annotation, so the
  two types refer to each other. The formatted message text of the library is not
  reproduced: the annotation keeps the structure the text is printed from.
\<close>

datatype annotation =
    MustBe js_value
  | MustBeString
  | MustBeObject
  | Message string
  | Threw js_error
  | ObjectErrors "(string \<times> annotation) list" "string list"
  | EitherErrors annotation annotation
and js_error =
    Error string
  | DecodingError annotation

type_synonym 'a DecodeResult = "annotation + 'a"

type_synonym Decoder = "js_value \<Rightarrow> js_value DecodeResult"

section \<open>The decoder combinators the module imports\<close>

text \<open>
  \<^verbatim>\<open>import * as JD from "decoders"\<close>: the combinators belong to a package the module
  depends on, and their code is not part of \<^verbatim>\<open>src/\<close>. Each of them is modelled below
  from the capability list of the specification (section 6: literal matcher, string
  matcher, accept-anything matcher, object-shape matcher, either-of-two combinator,
  transform, verify) and from the documented behaviour of the package.
\<close>

text \<open>
  Modelled from the spec: \<^verbatim>\<open>JD.constant(value)\<close>, the literal matcher. It accepts exactly
  the values that are strictly equal to the given scalar and returns that scalar.
\<close>

definition JD_constant :: "js_value \<Rightarrow> Decoder" where
  "JD_constant v = (\<lambda>blob. if blob = v then Inr v else Inl (MustBe v))"

text \<open>
  Modelled from the spec: \<^verbatim>\<open>JD.string\<close>, the string matcher. It accepts strings and
  returns them unchanged.
\<close>

definition JD_string :: Decoder where
  "JD_string = (\<lambda>blob. case blob of JString s \<Rightarrow> Inr blob | _ \<Rightarrow> Inl MustBeString)"

text \<open>
  Modelled from the spec: \<^verbatim>\<open>JD.unknown\<close>, the matcher that accepts any unvalidated
  value and returns it unchanged; \<^verbatim>\<open>undefined\<close> is a value like any other.
\<close>

definition JD_unknown :: Decoder where
  "JD_unknown = (\<lambda>blob. Inr blob)"

text \<open>
  Modelled from the spec: \<^verbatim>\<open>JD.never(msg)\<close>, the decoder behind the two no-op
  decoders. It rejects every input with the given message.
\<close>

definition JD_never :: "string \<Rightarrow> Decoder" where
  "JD_never msg = (\<lambda>blob. Inl (Message msg))"

text \<open>
  Modelled from the spec: \<^verbatim>\<open>JD.either(a, b)\<close>, the either-of-two combinator. The
  alternatives are tried in order and the first one that accepts decides the result; when
  both reject, the decode fails with both annotations.
\<close>

definition JD_either :: "Decoder \<Rightarrow> Decoder \<Rightarrow> Decoder" where
  "JD_either a b = (\<lambda>blob.
     case a blob of
       Inr v \<Rightarrow> Inr v
     | Inl e1 \<Rightarrow> (case b blob of Inr v \<Rightarrow> Inr v | Inl e2 \<Rightarrow> Inl (EitherErrors e1 e2)))"

text \<open>
  Reading a property: \<^verbatim>\<open>obj[key]\<close>, and the destructuring \<^verbatim>\<open>({ _t, data }) => ...\<close> of
  the callbacks. A property the object does not have reads as \<^verbatim>\<open>undefined\<close>. The
  source reads properties of plain objects only; the last equation is never reached from
  it.
\<close>

fun get :: "js_value \<Rightarrow> string \<Rightarrow> js_value" where
  "get (JObject props) key = (case map_of props key of Some v \<Rightarrow> v | None \<Rightarrow> JUndefined)"
| "get _ key = JUndefined"

text \<open>
  Modelled from the spec: the loop of \<^verbatim>\<open>JD.object(decoders)\<close>, the object-shape
  matcher, over the declared fields in their order. Each field decoder runs on the
  property read from the input, which is \<^verbatim>\<open>undefined\<close> when the input lacks the key, so
  the field decoder decides whether a field may be absent (this is how the package
  expresses an optional field: by a field decoder that accepts \<^verbatim>\<open>undefined\<close>, such as
  \<^verbatim>\<open>JD.optional(d)\<close>). An accepted value is stored
  in the record unless it is \<^verbatim>\<open>undefined\<close>. A rejected field is a missing key when the
  property read was \<^verbatim>\<open>undefined\<close> and a field error otherwise. The result is the record,
  the field errors and the missing keys.
\<close>

fun decodeFields ::
  "(string \<times> Decoder) list \<Rightarrow> js_value \<Rightarrow>
     (string \<times> js_value) list \<times> (string \<times> annotation) list \<times> string list" where
  "decodeFields [] plainObj = ([], [], [])"
| "decodeFields ((key, decoder) # rest) plainObj =
     (let rawValue = get plainObj key in
      case decodeFields rest plainObj of (decoded, errors, missingKeys) \<Rightarrow>
        (case decoder rawValue of
           Inr v \<Rightarrow> ((if v \<noteq> JUndefined then [(key, v)] else []) @ decoded, errors, missingKeys)
         | Inl ann \<Rightarrow>
             if rawValue = JUndefined then (decoded, errors, key # missingKeys)
             else (decoded, (key, ann) # errors, missingKeys)))"

text \<open>
  Modelled from the spec: \<^verbatim>\<open>JD.object(decoders)\<close>. The input must be a plain object
  (not an array, not \<^verbatim>\<open>null\<close>); the decode succeeds when no field was rejected, and the
  result is the record of the declared fields only: properties of the input that no
  field decoder names are not copied.
\<close>

definition JD_object :: "(string \<times> Decoder) list \<Rightarrow> Decoder" where
  "JD_object decoders = (\<lambda>blob.
     case blob of
       JObject props \<Rightarrow>
         (case decodeFields decoders blob of
            (decoded, [], []) \<Rightarrow> Inr (JObject decoded)
          | (decoded, errors, missingKeys) \<Rightarrow> Inl (ObjectErrors errors missingKeys))
     | _ \<Rightarrow> Inl MustBeObject)"

text \<open>
  Modelled from the spec: \<^verbatim>\<open>decoder.verify(blob)\<close>, which runs the decoder and returns
  the decoded value or throws a decoding error.
\<close>

definition verify :: "Decoder \<Rightarrow> js_value \<Rightarrow> js_error + js_value" where
  "verify decoder blob =
     (case decoder blob of Inr v \<Rightarrow> Inr v | Inl ann \<Rightarrow> Inl (DecodingError ann))"

text \<open>
  Modelled from the spec: \<^verbatim>\<open>decoder.transform(fn)\<close>, which applies the callback to a
  successfully decoded value. A callback that throws makes the whole decode fail, with
  the thrown error as the reason; nothing is thrown out of the decoder.
\<close>

definition transform :: "Decoder \<Rightarrow> (js_value \<Rightarrow> js_error + js_value) \<Rightarrow> Decoder" where
  "transform decoder fn = (\<lambda>blob.
     case decoder blob of
       Inl ann \<Rightarrow> Inl ann
     | Inr v \<Rightarrow> (case fn v of Inr w \<Rightarrow> Inr w | Inl e \<Rightarrow> Inl (Threw e)))"

section \<open>The envelope decoders of \<^verbatim>\<open>src/data/Api.ts\<close>\<close>

text \<open>
  \<^verbatim>\<open>ok200Decoder\<close> (lines 187 to 194): the object matcher checks the tag and takes
  \<^verbatim>\<open>data\<close> unvalidated; the callback builds \<^verbatim>\<open>{ _t, data: dataDecoder.verify(data) }\<close>.
\<close>

definition ok200Decoder :: "Decoder \<Rightarrow> Decoder" where
  "ok200Decoder dataDecoder =
     transform (JD_object [(''_t'', JD_constant (JString ''Ok'')), (''data'', JD_unknown)])
       (\<lambda>r. case verify dataDecoder (get r ''data'') of
               Inl e \<Rightarrow> Inl e
             | Inr d \<Rightarrow> Inr (JObject [(''_t'', get r ''_t''), (''data'', d)]))"

text \<open>\<^verbatim>\<open>err400Decoder\<close> (lines 196 to 203), of the same shape over \<^verbatim>\<open>code\<close>.\<close>

definition err400Decoder :: "Decoder \<Rightarrow> Decoder" where
  "err400Decoder errorDecoder =
     transform (JD_object [(''_t'', JD_constant (JString ''Err'')), (''code'', JD_unknown)])
       (\<lambda>r. case verify errorDecoder (get r ''code'') of
               Inl e \<Rightarrow> Inl e
             | Inr c \<Rightarrow> Inr (JObject [(''_t'', get r ''_t''), (''code'', c)]))"

text \<open>
  \<^verbatim>\<open>authErr400Decoder\<close> (lines 205 to 215): the code is verified by
  \<^verbatim>\<open>JD.either(JD.constant("UNAUTHORISED"), errorDecoder)\<close>.
\<close>

definition authErr400Decoder :: "Decoder \<Rightarrow> Decoder" where
  "authErr400Decoder errorDecoder =
     transform (JD_object [(''_t'', JD_constant (JString ''Err'')), (''code'', JD_unknown)])
       (\<lambda>r. case verify (JD_either (JD_constant (JString ''UNAUTHORISED'')) errorDecoder)
                    (get r ''code'') of
               Inl e \<Rightarrow> Inl e
             | Inr c \<Rightarrow> Inr (JObject [(''_t'', get r ''_t''), (''code'', c)]))"

text \<open>\<^verbatim>\<open>adminErr400Decoder\<close> (lines 217 to 227).\<close>

definition adminErr400Decoder :: "Decoder \<Rightarrow> Decoder" where
  "adminErr400Decoder errorDecoder =
     transform (JD_object [(''_t'', JD_constant (JString ''Err'')), (''code'', JD_unknown)])
       (\<lambda>r. case verify (JD_either (JD_constant (JString ''UNAUTHORISED'')) errorDecoder)
                    (get r ''code'') of
               Inl e \<Rightarrow> Inl e
             | Inr c \<Rightarrow> Inr (JObject [(''_t'', get r ''_t''), (''code'', c)]))"

text \<open>\<^verbatim>\<open>internalErr500Decoder\<close> (lines 229 to 234) takes no argument.\<close>

definition internalErr500Decoder :: Decoder where
  "internalErr500Decoder =
     JD_object [(''_t'', JD_constant (JString ''ServerError'')), (''errorID'', JD_string)]"

section \<open>The status dispatch\<close>

text \<open>
  \<^verbatim>\<open>responseDecoder\<close> (lines 151 to 167) and \<^verbatim>\<open>authResponseDecoder\<close> (lines 169 to
  185) return a function of the status. Its \<^verbatim>\<open>switch\<close> returns a decoder or throws, so
  the result is a sum: \<^term>\<open>Inl\<close> is the thrown error, \<^term>\<open>Inr\<close> the decoder. The
  message is written in the source between double quotes, so it is this text as it
  stands. The status is an integer here.
\<close>

definition responseDecoder :: "Decoder \<Rightarrow> Decoder \<Rightarrow> int \<Rightarrow> js_error + Decoder" where
  "responseDecoder errorDecoder dataDecoder = (\<lambda>status.
     if status = 200 then Inr (ok200Decoder dataDecoder)
     else if status = 400 then Inr (err400Decoder errorDecoder)
     else if status = 500 then Inr internalErr500Decoder
     else Inl (Error ''Invalid status number: `${status}`''))"

definition authResponseDecoder :: "Decoder \<Rightarrow> Decoder \<Rightarrow> int \<Rightarrow> js_error + Decoder" where
  "authResponseDecoder errorDecoder dataDecoder = (\<lambda>status.
     if status = 200 then Inr (ok200Decoder dataDecoder)
     else if status = 400 then Inr (authErr400Decoder errorDecoder)
     else if status = 500 then Inr internalErr500Decoder
     else Inl (Error ''Invalid status number: `${status}`''))"

section \<open>The no-op decoders\<close>

text \<open>Lines 241 and 242: both are \<^verbatim>\<open>JD.never("_")\<close>.\<close>

definition noUrlParamsDecoder :: Decoder where
  "noUrlParamsDecoder = JD_never ''_''"

definition noBodyParamsDecoder :: Decoder where
  "noBodyParamsDecoder = JD_never ''_''"

section \<open>The exported values of the module\<close>

text \<open>
  The value exports of \<^verbatim>\<open>src/data/Api.ts\<close>, one entry per \<^verbatim>\<open>export function\<close> and
  \<^verbatim>\<open>export const\<close> of the file, in the order of the file, each with the function it
  names. An export is a status-dispatching factory (two decoders in, a function of the
  status out), a decoder built from one decoder, or a decoder.
\<close>

datatype export =
    Factory "Decoder \<Rightarrow> Decoder \<Rightarrow> int \<Rightarrow> js_error + Decoder"
  | DecoderOf "Decoder \<Rightarrow> Decoder"
  | Plain Decoder

definition Api_exports :: "(string \<times> export) list" where
  "Api_exports =
     [(''responseDecoder'', Factory responseDecoder),
      (''authResponseDecoder'', Factory authResponseDecoder),
      (''ok200Decoder'', DecoderOf ok200Decoder),
      (''err400Decoder'', DecoderOf err400Decoder),
      (''authErr400Decoder'', DecoderOf authErr400Decoder),
      (''adminErr400Decoder'', DecoderOf adminErr400Decoder),
      (''internalErr500Decoder'', Plain internalErr500Decoder),
      (''noUrlParamsDecoder'', Plain noUrlParamsDecoder),
      (''noBodyParamsDecoder'', Plain noBodyParamsDecoder)]"

fun factoryNames :: "(string \<times> export) list \<Rightarrow> string list" where
  "factoryNames [] = []"
| "factoryNames ((name, Factory f) # rest) = name # factoryNames rest"
| "factoryNames (_ # rest) = factoryNames rest"

section \<open>How the object matcher treats the two-field envelopes\<close>

text \<open>
  Four of the five envelope decoders run the same object matcher, a literal tag and one
  unvalidated field, followed by a callback that verifies the field. The lemmas below
  compute that pipeline once.
\<close>

lemma tagged_object_accepts:
  assumes "get (JObject props) ''_t'' = JString t"
  shows "JD_object [(''_t'', JD_constant (JString t)), (k, JD_unknown)] (JObject props) =
           Inr (JObject ((''_t'', JString t) #
                  (if get (JObject props) k \<noteq> JUndefined then [(k, get (JObject props) k)] else [])))"
  using assms by (simp add: JD_object_def JD_constant_def JD_unknown_def Let_def)

lemma tagged_object_rejects:
  assumes "get payload ''_t'' \<noteq> JString t"
  shows "isl (JD_object [(''_t'', JD_constant (JString t)), (k, JD_unknown)] payload)"
  using assms
  by (cases payload)
     (simp_all add: JD_object_def JD_constant_def JD_unknown_def Let_def split: list.splits)

lemma transform_rejects: "isl (decoder blob) \<Longrightarrow> isl (transform decoder fn blob)"
  by (cases "decoder blob") (simp_all add: transform_def)

lemma envelope_accepts:
  assumes "get (JObject props) ''_t'' = JString t" and "k \<noteq> ''_t''"
  shows "transform (JD_object [(''_t'', JD_constant (JString t)), (k, JD_unknown)])
           (\<lambda>r. case verify dec (get r k) of
                   Inl e \<Rightarrow> Inl e
                 | Inr c \<Rightarrow> Inr (JObject [(''_t'', get r ''_t''), (k, c)])) (JObject props) =
         (case dec (get (JObject props) k) of
            Inl ann \<Rightarrow> Inl (Threw (DecodingError ann))
          | Inr c \<Rightarrow> Inr (JObject [(''_t'', JString t), (k, c)]))"
proof -
  let ?v = "get (JObject props) k"
  let ?decoded = "JObject ((''_t'', JString t) # (if ?v \<noteq> JUndefined then [(k, ?v)] else []))"
  have "get ?decoded k = ?v" and "get ?decoded ''_t'' = JString t"
    using assms(2) by simp_all
  then show ?thesis
    unfolding transform_def tagged_object_accepts [OF assms(1)] verify_def
    by (cases "dec ?v") simp_all
qed

lemma envelope_rejects_tag:
  assumes "get payload ''_t'' \<noteq> JString t"
  shows "isl (transform (JD_object [(''_t'', JD_constant (JString t)), (k, JD_unknown)]) fn payload)"
  using assms by (intro transform_rejects tagged_object_rejects)

lemma internalErr500Decoder_accepts:
  assumes "get (JObject props) ''_t'' = JString ''ServerError''"
    and "get (JObject props) ''errorID'' = JString s"
  shows "internalErr500Decoder (JObject props) =
           Inr (JObject [(''_t'', JString ''ServerError''), (''errorID'', JString s)])"
  using assms
  by (simp add: internalErr500Decoder_def JD_object_def JD_constant_def JD_string_def Let_def)

section \<open>The claims\<close>

text \<open>
  Claim C1. For every status outside 200, 400 and 500 the function returned by
  \<^verbatim>\<open>responseDecoder\<close>, and the one returned by \<^verbatim>\<open>authResponseDecoder\<close>, throws when it
  is applied to the status: the result is an error and no decoder, so no payload has been
  looked at and the failure is not a decode failure of some decoder. For 200, 400 and 500
  the result is the Ok decoder, the Err decoder of the family and the ServerError decoder.
\<close>

theorem status_dispatch:
  "(status \<notin> {200, 400, 500} \<longrightarrow>
      (\<exists>e. responseDecoder errorDecoder dataDecoder status = Inl e) \<and>
      (\<exists>e. authResponseDecoder errorDecoder dataDecoder status = Inl e)) \<and>
   responseDecoder errorDecoder dataDecoder 200 = Inr (ok200Decoder dataDecoder) \<and>
   responseDecoder errorDecoder dataDecoder 400 = Inr (err400Decoder errorDecoder) \<and>
   responseDecoder errorDecoder dataDecoder 500 = Inr internalErr500Decoder \<and>
   authResponseDecoder errorDecoder dataDecoder 200 = Inr (ok200Decoder dataDecoder) \<and>
   authResponseDecoder errorDecoder dataDecoder 400 = Inr (authErr400Decoder errorDecoder) \<and>
   authResponseDecoder errorDecoder dataDecoder 500 = Inr internalErr500Decoder"
  by (simp add: responseDecoder_def authResponseDecoder_def)

theorem status_dispatch_witness:
  "(201::int) \<notin> {200, 400, 500} \<and>
   (\<exists>e. responseDecoder JD_string JD_unknown 201 = Inl e) \<and>
   (\<exists>e. authResponseDecoder JD_string JD_unknown 201 = Inl e) \<and>
   responseDecoder JD_string JD_unknown 400 = Inr (err400Decoder JD_string)"
  using status_dispatch [of 201 JD_string JD_unknown] by simp

text \<open>
  Claim C2. Let the payload be an object whose \<^verbatim>\<open>_t\<close> is \<^verbatim>\<open>"Ok"\<close> and whose \<^verbatim>\<open>data\<close>
  is \<open>d\<close>. When \<open>dataDecoder\<close> accepts \<open>d\<close> with output \<open>d'\<close>, the status-200 decoder
  succeeds with \<^verbatim>\<open>{_t: "Ok", data: d'}\<close>; when \<open>dataDecoder\<close> rejects \<open>d\<close>, the decode
  fails although the envelope is well shaped.
\<close>

theorem ok200Decoder_data:
  assumes "map_of props ''_t'' = Some (JString ''Ok'')" and "map_of props ''data'' = Some d"
  shows "(\<forall>d'. dataDecoder d = Inr d' \<longrightarrow>
            ok200Decoder dataDecoder (JObject props) =
              Inr (JObject [(''_t'', JString ''Ok''), (''data'', d')])) \<and>
         (isl (dataDecoder d) \<longrightarrow> isl (ok200Decoder dataDecoder (JObject props)))"
proof -
  have "ok200Decoder dataDecoder (JObject props) =
          (case dataDecoder d of
             Inl ann \<Rightarrow> Inl (Threw (DecodingError ann))
           | Inr d' \<Rightarrow> Inr (JObject [(''_t'', JString ''Ok''), (''data'', d')]))"
    unfolding ok200Decoder_def using assms by (subst envelope_accepts) simp_all
  then show ?thesis
    by (cases "dataDecoder d") simp_all
qed

theorem ok200Decoder_data_witness:
  "ok200Decoder JD_string (JObject [(''_t'', JString ''Ok''), (''data'', JString ''abc'')]) =
     Inr (JObject [(''_t'', JString ''Ok''), (''data'', JString ''abc'')]) \<and>
   isl (ok200Decoder JD_string (JObject [(''_t'', JString ''Ok''), (''data'', JNumber 7)]))"
  using ok200Decoder_data [of "[(''_t'', JString ''Ok''), (''data'', JString ''abc'')]"
          "JString ''abc''" JD_string]
        ok200Decoder_data [of "[(''_t'', JString ''Ok''), (''data'', JNumber 7)]"
          "JNumber 7" JD_string]
  by (simp add: JD_string_def)

text \<open>
  Claim C3. On the payload \<^verbatim>\<open>{_t: "Err", code: "UNAUTHORISED"}\<close> the plain 400 decoder
  fails whenever \<open>errorDecoder\<close> rejects the string \<^verbatim>\<open>"UNAUTHORISED"\<close>, and the
  authenticated 400 decoder succeeds with the same object. The second half needs no
  assumption on \<open>errorDecoder\<close>, because the literal is tried first.
\<close>

theorem unauthorised_code:
  "(isl (errorDecoder (JString ''UNAUTHORISED'')) \<longrightarrow>
      isl (err400Decoder errorDecoder
             (JObject [(''_t'', JString ''Err''), (''code'', JString ''UNAUTHORISED'')]))) \<and>
   authErr400Decoder errorDecoder
       (JObject [(''_t'', JString ''Err''), (''code'', JString ''UNAUTHORISED'')]) =
     Inr (JObject [(''_t'', JString ''Err''), (''code'', JString ''UNAUTHORISED'')])"
proof -
  let ?payload = "[(''_t'', JString ''Err''), (''code'', JString ''UNAUTHORISED'')]"
  have plain: "err400Decoder errorDecoder (JObject ?payload) =
          (case errorDecoder (JString ''UNAUTHORISED'') of
             Inl ann \<Rightarrow> Inl (Threw (DecodingError ann))
           | Inr c \<Rightarrow> Inr (JObject [(''_t'', JString ''Err''), (''code'', c)]))"
    unfolding err400Decoder_def by (subst envelope_accepts) simp_all
  have auth: "authErr400Decoder errorDecoder (JObject ?payload) = Inr (JObject ?payload)"
    unfolding authErr400Decoder_def
    by (subst envelope_accepts) (simp_all add: JD_either_def JD_constant_def)
  from plain auth show ?thesis
    by (cases "errorDecoder (JString ''UNAUTHORISED'')") simp_all
qed

theorem unauthorised_code_witness:
  "isl (JD_constant (JString ''NOT_FOUND'') (JString ''UNAUTHORISED'')) \<and>
   isl (err400Decoder (JD_constant (JString ''NOT_FOUND''))
          (JObject [(''_t'', JString ''Err''), (''code'', JString ''UNAUTHORISED'')])) \<and>
   authErr400Decoder (JD_constant (JString ''NOT_FOUND''))
       (JObject [(''_t'', JString ''Err''), (''code'', JString ''UNAUTHORISED'')]) =
     Inr (JObject [(''_t'', JString ''Err''), (''code'', JString ''UNAUTHORISED'')])"
  using unauthorised_code [of "JD_constant (JString ''NOT_FOUND'')"]
  by (simp add: JD_constant_def)

text \<open>
  Claim C4, as stated, says that the plain 400 decoder rejects every object that lacks
  the \<^verbatim>\<open>code\<close> field. It does not: the object matcher takes \<^verbatim>\<open>code\<close> with
  \<^verbatim>\<open>JD.unknown\<close>, which accepts the \<^verbatim>\<open>undefined\<close> read from a missing property, and
  \<open>errorDecoder\<close> then decides. With an \<open>errorDecoder\<close> that accepts \<^verbatim>\<open>undefined\<close>
  (here \<^verbatim>\<open>JD.unknown\<close> itself) the object \<^verbatim>\<open>{_t: "Err"}\<close> is decoded successfully.
\<close>

theorem err400Decoder_missing_code_accepted:
  "err400Decoder JD_unknown (JObject [(''_t'', JString ''Err'')]) =
     Inr (JObject [(''_t'', JString ''Err''), (''code'', JUndefined)])"
  unfolding err400Decoder_def by (subst envelope_accepts) (simp_all add: JD_unknown_def)

text \<open>
  Claim C4, amended. For an object whose \<^verbatim>\<open>_t\<close> is \<^verbatim>\<open>"Err"\<close> and whose \<^verbatim>\<open>code\<close> is
  \<open>c\<close>, with \<open>errorDecoder\<close> accepting \<open>c\<close> with output \<open>c'\<close>, the plain 400 decoder
  succeeds with \<^verbatim>\<open>{_t: "Err", code: c'}\<close>. Every payload whose tag is not \<^verbatim>\<open>"Err"\<close>
  is rejected. A payload without \<^verbatim>\<open>code\<close> is rejected whenever \<open>errorDecoder\<close> rejects
  \<^verbatim>\<open>undefined\<close>, and in general it is decoded exactly as the same object with
  \<^verbatim>\<open>code: undefined\<close> is.
\<close>

theorem err400Decoder_code:
  "(map_of props ''_t'' = Some (JString ''Err'') \<and> map_of props ''code'' = Some c \<and>
      errorDecoder c = Inr c' \<longrightarrow>
      err400Decoder errorDecoder (JObject props) =
        Inr (JObject [(''_t'', JString ''Err''), (''code'', c')])) \<and>
   (get payload ''_t'' \<noteq> JString ''Err'' \<longrightarrow> isl (err400Decoder errorDecoder payload)) \<and>
   (get payload ''code'' = JUndefined \<and> isl (errorDecoder JUndefined) \<longrightarrow>
      isl (err400Decoder errorDecoder payload)) \<and>
   (map_of props ''code'' = None \<longrightarrow>
      err400Decoder errorDecoder (JObject props) =
        err400Decoder errorDecoder (JObject ((''code'', JUndefined) # props)))"
proof (intro conjI impI)
  assume "map_of props ''_t'' = Some (JString ''Err'') \<and> map_of props ''code'' = Some c \<and>
      errorDecoder c = Inr c'"
  then show "err400Decoder errorDecoder (JObject props) =
        Inr (JObject [(''_t'', JString ''Err''), (''code'', c')])"
    unfolding err400Decoder_def by (subst envelope_accepts) simp_all
next
  assume "get payload ''_t'' \<noteq> JString ''Err''"
  then show "isl (err400Decoder errorDecoder payload)"
    unfolding err400Decoder_def by (rule envelope_rejects_tag)
next
  assume a: "get payload ''code'' = JUndefined \<and> isl (errorDecoder JUndefined)"
  show "isl (err400Decoder errorDecoder payload)"
  proof (cases "get payload ''_t'' = JString ''Err''")
    case False
    then show ?thesis
      unfolding err400Decoder_def by (rule envelope_rejects_tag)
  next
    case True
    then obtain props where p: "payload = JObject props"
      by (cases payload) simp_all
    from a obtain ann where "errorDecoder JUndefined = Inl ann"
      by (cases "errorDecoder JUndefined") simp_all
    with a True show ?thesis
      unfolding p err400Decoder_def by (subst envelope_accepts) simp_all
  qed
next
  assume "map_of props ''code'' = None"
  then show "err400Decoder errorDecoder (JObject props) =
        err400Decoder errorDecoder (JObject ((''code'', JUndefined) # props))"
    by (simp add: err400Decoder_def transform_def JD_object_def Let_def)
qed

theorem err400Decoder_code_witness:
  "err400Decoder (JD_constant (JString ''NOT_FOUND''))
       (JObject [(''_t'', JString ''Err''), (''code'', JString ''NOT_FOUND'')]) =
     Inr (JObject [(''_t'', JString ''Err''), (''code'', JString ''NOT_FOUND'')]) \<and>
   isl (err400Decoder (JD_constant (JString ''NOT_FOUND''))
          (JObject [(''_t'', JString ''Ok''), (''code'', JString ''NOT_FOUND'')])) \<and>
   isl (err400Decoder (JD_constant (JString ''NOT_FOUND'')) (JObject [(''_t'', JString ''Err'')])) \<and>
   err400Decoder (JD_constant (JString ''NOT_FOUND'')) (JObject [(''_t'', JString ''Err'')]) =
     err400Decoder (JD_constant (JString ''NOT_FOUND''))
       (JObject [(''code'', JUndefined), (''_t'', JString ''Err'')])"
proof -
  let ?dec = "JD_constant (JString ''NOT_FOUND'')"
  have accepts: "?dec (JString ''NOT_FOUND'') = Inr (JString ''NOT_FOUND'')"
    and rejects: "isl (?dec JUndefined)"
    by (simp_all add: JD_constant_def)
  from accepts
    err400Decoder_code [of "[(''_t'', JString ''Err''), (''code'', JString ''NOT_FOUND'')]"
      "JString ''NOT_FOUND''" ?dec "JString ''NOT_FOUND''"
      "JObject [(''_t'', JString ''Ok''), (''code'', JString ''NOT_FOUND'')]"]
  have first: "err400Decoder ?dec
       (JObject [(''_t'', JString ''Err''), (''code'', JString ''NOT_FOUND'')]) =
     Inr (JObject [(''_t'', JString ''Err''), (''code'', JString ''NOT_FOUND'')]) \<and>
   isl (err400Decoder ?dec (JObject [(''_t'', JString ''Ok''), (''code'', JString ''NOT_FOUND'')]))"
    by simp
  from rejects
    err400Decoder_code [of "[(''_t'', JString ''Err'')]" JUndefined ?dec JUndefined
      "JObject [(''_t'', JString ''Err'')]"]
  have second: "isl (err400Decoder ?dec (JObject [(''_t'', JString ''Err'')])) \<and>
   err400Decoder ?dec (JObject [(''_t'', JString ''Err'')]) =
     err400Decoder ?dec (JObject [(''code'', JUndefined), (''_t'', JString ''Err'')])"
    by (simp (no_asm_use)) blast
  from first second show ?thesis
    by blast
qed

text \<open>
  Claim C5. For every string \<open>s\<close> the status-500 decoder accepts
  \<^verbatim>\<open>{_t: "ServerError", errorID: s}\<close> and returns the same object. Both factories return
  this one decoder at status 500 whatever \<open>errorDecoder\<close> and \<open>dataDecoder\<close> they were
  given. A payload whose \<^verbatim>\<open>errorID\<close> is not a string (or is absent), or whose tag is not
  \<^verbatim>\<open>"ServerError"\<close>, is rejected.
\<close>

theorem internalErr500Decoder_errorID:
  "responseDecoder errorDecoder dataDecoder 500 = Inr internalErr500Decoder \<and>
   authResponseDecoder errorDecoder dataDecoder 500 = Inr internalErr500Decoder \<and>
   internalErr500Decoder (JObject [(''_t'', JString ''ServerError''), (''errorID'', JString s)]) =
     Inr (JObject [(''_t'', JString ''ServerError''), (''errorID'', JString s)]) \<and>
   ((\<forall>s'. get payload ''errorID'' \<noteq> JString s') \<or> get payload ''_t'' \<noteq> JString ''ServerError'' \<longrightarrow>
      isl (internalErr500Decoder payload))"
proof (intro conjI impI)
  show "responseDecoder errorDecoder dataDecoder 500 = Inr internalErr500Decoder"
    by (simp add: responseDecoder_def)
  show "authResponseDecoder errorDecoder dataDecoder 500 = Inr internalErr500Decoder"
    by (simp add: authResponseDecoder_def)
  show "internalErr500Decoder (JObject [(''_t'', JString ''ServerError''), (''errorID'', JString s)]) =
     Inr (JObject [(''_t'', JString ''ServerError''), (''errorID'', JString s)])"
    by (rule internalErr500Decoder_accepts) simp_all
next
  assume bad: "(\<forall>s'. get payload ''errorID'' \<noteq> JString s') \<or>
               get payload ''_t'' \<noteq> JString ''ServerError''"
  show "isl (internalErr500Decoder payload)"
  proof (cases payload)
    case (JObject props)
    have tag: "isl (JD_constant (JString ''ServerError'') (get payload ''_t'')) \<longleftrightarrow>
                 get payload ''_t'' \<noteq> JString ''ServerError''"
      by (simp add: JD_constant_def)
    have str: "isl (JD_string (get payload ''errorID'')) \<longleftrightarrow>
                 (\<forall>s'. get payload ''errorID'' \<noteq> JString s')"
      by (cases "get payload ''errorID''") (simp_all add: JD_string_def)
    from bad tag str
    have "isl (JD_constant (JString ''ServerError'') (get payload ''_t'')) \<or>
          isl (JD_string (get payload ''errorID''))"
      by blast
    then show ?thesis
      unfolding JObject internalErr500Decoder_def JD_object_def
      by (cases "JD_constant (JString ''ServerError'') (get (JObject props) ''_t'')";
          cases "JD_string (get (JObject props) ''errorID'')")
         (simp_all add: Let_def)
  qed (simp_all add: internalErr500Decoder_def JD_object_def)
qed

theorem internalErr500Decoder_errorID_witness:
  "isl (internalErr500Decoder (JObject [(''_t'', JString ''ServerError''), (''errorID'', JNumber 5)])) \<and>
   isl (internalErr500Decoder (JObject [(''_t'', JString ''Err''), (''errorID'', JString ''e-1'')])) \<and>
   internalErr500Decoder (JObject [(''_t'', JString ''ServerError''), (''errorID'', JString ''e-1'')]) =
     Inr (JObject [(''_t'', JString ''ServerError''), (''errorID'', JString ''e-1'')])"
  using internalErr500Decoder_errorID [of JD_string JD_unknown "''e-1''"
          "JObject [(''_t'', JString ''ServerError''), (''errorID'', JNumber 5)]"]
        internalErr500Decoder_errorID [of JD_string JD_unknown "''e-1''"
          "JObject [(''_t'', JString ''Err''), (''errorID'', JString ''e-1'')]"]
  by simp

text \<open>
  Claim C6. The two no-op decoders reject every input, the empty object and \<^verbatim>\<open>null\<close>
  included.
\<close>

theorem noop_decoders_reject:
  "isl (noUrlParamsDecoder blob) \<and> isl (noBodyParamsDecoder blob)"
  by (simp add: noUrlParamsDecoder_def noBodyParamsDecoder_def JD_never_def)

theorem noop_decoders_reject_witness:
  "isl (noUrlParamsDecoder (JObject [])) \<and> isl (noBodyParamsDecoder (JObject [])) \<and>
   isl (noUrlParamsDecoder JNull) \<and> isl (noBodyParamsDecoder JNull)"
  using noop_decoders_reject [of "JObject []"] noop_decoders_reject [of JNull] by simp

text \<open>
  Claim C7, as stated, counts three status-dispatching factories among the exports, one
  of them for the admin family. The file exports two: \<^verbatim>\<open>responseDecoder\<close> and
  \<^verbatim>\<open>authResponseDecoder\<close>.
\<close>

theorem exported_factories_are_two:
  "factoryNames Api_exports = [''responseDecoder'', ''authResponseDecoder''] \<and>
   length (factoryNames Api_exports) \<noteq> 3"
  by (simp add: Api_exports_def)

text \<open>
  Claim C7, amended. The exports hold exactly two status-dispatching factories, the
  plain one and the bearer-authenticated one, and each maps 200, 400 and 500 to the Ok,
  Err and ServerError decoders of its family. The admin family is present as its 400
  decoder \<^verbatim>\<open>adminErr400Decoder\<close> only.
\<close>

theorem exported_factories_dispatch:
  "factoryNames Api_exports = [''responseDecoder'', ''authResponseDecoder''] \<and>
   map_of Api_exports ''responseDecoder'' = Some (Factory responseDecoder) \<and>
   map_of Api_exports ''authResponseDecoder'' = Some (Factory authResponseDecoder) \<and>
   map_of Api_exports ''adminErr400Decoder'' = Some (DecoderOf adminErr400Decoder) \<and>
   responseDecoder errorDecoder dataDecoder 200 = Inr (ok200Decoder dataDecoder) \<and>
   responseDecoder errorDecoder dataDecoder 400 = Inr (err400Decoder errorDecoder) \<and>
   responseDecoder errorDecoder dataDecoder 500 = Inr internalErr500Decoder \<and>
   authResponseDecoder errorDecoder dataDecoder 200 = Inr (ok200Decoder dataDecoder) \<and>
   authResponseDecoder errorDecoder dataDecoder 400 = Inr (authErr400Decoder errorDecoder) \<and>
   authResponseDecoder errorDecoder dataDecoder 500 = Inr internalErr500Decoder"
  by (simp add: Api_exports_def responseDecoder_def authResponseDecoder_def)

theorem exported_factories_dispatch_witness:
  "factoryNames Api_exports = [''responseDecoder'', ''authResponseDecoder''] \<and>
   responseDecoder JD_string JD_unknown 400 = Inr (err400Decoder JD_string) \<and>
   authResponseDecoder JD_string JD_unknown 400 = Inr (authErr400Decoder JD_string)"
  using exported_factories_dispatch [of JD_string JD_unknown] by simp

text \<open>
  Claim C8. The authenticated and the admin 400 decoders agree on every
  \<open>errorDecoder\<close> and every payload: both fail with the same annotation or both succeed
  with the same value.
\<close>

theorem auth_admin_err400_equal:
  "authErr400Decoder errorDecoder payload = adminErr400Decoder errorDecoder payload"
  by (simp add: authErr400Decoder_def adminErr400Decoder_def)

text \<open>
  Claim C9. Properties of the payload that the envelope does not declare are ignored and
  dropped. The payload \<open>props\<close> below is any list of properties in which the required
  fields read as stated, so it may hold any further properties; each of the five decoders
  succeeds and its result has the two declared fields and nothing else.
\<close>

theorem extra_fields_dropped:
  "(map_of props ''_t'' = Some (JString ''Ok'') \<and> map_of props ''data'' = Some d \<and>
      dataDecoder d = Inr d' \<longrightarrow>
      ok200Decoder dataDecoder (JObject props) =
        Inr (JObject [(''_t'', JString ''Ok''), (''data'', d')])) \<and>
   (map_of props ''_t'' = Some (JString ''Err'') \<and> map_of props ''code'' = Some c \<and>
      errorDecoder c = Inr c' \<longrightarrow>
      err400Decoder errorDecoder (JObject props) =
        Inr (JObject [(''_t'', JString ''Err''), (''code'', c')]) \<and>
      authErr400Decoder errorDecoder (JObject props) =
        Inr (JObject [(''_t'', JString ''Err''),
                      (''code'', if c = JString ''UNAUTHORISED'' then c else c')]) \<and>
      adminErr400Decoder errorDecoder (JObject props) =
        Inr (JObject [(''_t'', JString ''Err''),
                      (''code'', if c = JString ''UNAUTHORISED'' then c else c')])) \<and>
   (map_of props ''_t'' = Some (JString ''Err'') \<and>
      map_of props ''code'' = Some (JString ''UNAUTHORISED'') \<longrightarrow>
      authErr400Decoder errorDecoder (JObject props) =
        Inr (JObject [(''_t'', JString ''Err''), (''code'', JString ''UNAUTHORISED'')]) \<and>
      adminErr400Decoder errorDecoder (JObject props) =
        Inr (JObject [(''_t'', JString ''Err''), (''code'', JString ''UNAUTHORISED'')])) \<and>
   (map_of props ''_t'' = Some (JString ''ServerError'') \<and>
      map_of props ''errorID'' = Some (JString s) \<longrightarrow>
      internalErr500Decoder (JObject props) =
        Inr (JObject [(''_t'', JString ''ServerError''), (''errorID'', JString s)]))"
proof (intro conjI impI)
  assume "map_of props ''_t'' = Some (JString ''Ok'') \<and> map_of props ''data'' = Some d \<and>
      dataDecoder d = Inr d'"
  then show "ok200Decoder dataDecoder (JObject props) =
        Inr (JObject [(''_t'', JString ''Ok''), (''data'', d')])"
    unfolding ok200Decoder_def by (subst envelope_accepts) simp_all
next
  assume a: "map_of props ''_t'' = Some (JString ''Err'') \<and> map_of props ''code'' = Some c \<and>
      errorDecoder c = Inr c'"
  then show "err400Decoder errorDecoder (JObject props) =
        Inr (JObject [(''_t'', JString ''Err''), (''code'', c')])"
    unfolding err400Decoder_def by (subst envelope_accepts) simp_all
  from a show "authErr400Decoder errorDecoder (JObject props) =
        Inr (JObject [(''_t'', JString ''Err''),
                      (''code'', if c = JString ''UNAUTHORISED'' then c else c')])"
    unfolding authErr400Decoder_def
    by (subst envelope_accepts) (simp_all add: JD_either_def JD_constant_def)
  from a show "adminErr400Decoder errorDecoder (JObject props) =
        Inr (JObject [(''_t'', JString ''Err''),
                      (''code'', if c = JString ''UNAUTHORISED'' then c else c')])"
    unfolding adminErr400Decoder_def
    by (subst envelope_accepts) (simp_all add: JD_either_def JD_constant_def)
next
  assume a: "map_of props ''_t'' = Some (JString ''Err'') \<and>
      map_of props ''code'' = Some (JString ''UNAUTHORISED'')"
  then show "authErr400Decoder errorDecoder (JObject props) =
        Inr (JObject [(''_t'', JString ''Err''), (''code'', JString ''UNAUTHORISED'')])"
    unfolding authErr400Decoder_def
    by (subst envelope_accepts) (simp_all add: JD_either_def JD_constant_def)
  from a show "adminErr400Decoder errorDecoder (JObject props) =
        Inr (JObject [(''_t'', JString ''Err''), (''code'', JString ''UNAUTHORISED'')])"
    unfolding adminErr400Decoder_def
    by (subst envelope_accepts) (simp_all add: JD_either_def JD_constant_def)
next
  assume "map_of props ''_t'' = Some (JString ''ServerError'') \<and>
      map_of props ''errorID'' = Some (JString s)"
  then show "internalErr500Decoder (JObject props) =
        Inr (JObject [(''_t'', JString ''ServerError''), (''errorID'', JString s)])"
    by (intro internalErr500Decoder_accepts) simp_all
qed

theorem extra_fields_dropped_witness:
  "ok200Decoder JD_string
       (JObject [(''extra'', JNumber 1), (''_t'', JString ''Ok''), (''data'', JString ''abc'')]) =
     Inr (JObject [(''_t'', JString ''Ok''), (''data'', JString ''abc'')]) \<and>
   err400Decoder JD_string
       (JObject [(''_t'', JString ''Err''), (''extra'', JNull), (''code'', JString ''E1'')]) =
     Inr (JObject [(''_t'', JString ''Err''), (''code'', JString ''E1'')]) \<and>
   authErr400Decoder JD_string
       (JObject [(''_t'', JString ''Err''), (''extra'', JNull), (''code'', JString ''E1'')]) =
     Inr (JObject [(''_t'', JString ''Err''), (''code'', JString ''E1'')]) \<and>
   adminErr400Decoder (JD_constant (JString ''E1''))
       (JObject [(''_t'', JString ''Err''), (''code'', JString ''UNAUTHORISED''),
                 (''extra'', JBoolean True)]) =
     Inr (JObject [(''_t'', JString ''Err''), (''code'', JString ''UNAUTHORISED'')]) \<and>
   internalErr500Decoder
       (JObject [(''_t'', JString ''ServerError''), (''errorID'', JString ''e-1''),
                 (''extra'', JArray [])]) =
     Inr (JObject [(''_t'', JString ''ServerError''), (''errorID'', JString ''e-1'')])"
  using extra_fields_dropped [of
          "[(''extra'', JNumber 1), (''_t'', JString ''Ok''), (''data'', JString ''abc'')]"
          "JString ''abc''" JD_string "JString ''abc''"]
        extra_fields_dropped [of
          "[(''_t'', JString ''Err''), (''extra'', JNull), (''code'', JString ''E1'')]"
          _ _ _ "JString ''E1''" JD_string "JString ''E1''"]
        extra_fields_dropped [of
          "[(''_t'', JString ''Err''), (''code'', JString ''UNAUTHORISED''),
            (''extra'', JBoolean True)]"
          _ _ _ _ "JD_constant (JString ''E1'')"]
        extra_fields_dropped [of
          "[(''_t'', JString ''ServerError''), (''errorID'', JString ''e-1''),
            (''extra'', JArray [])]"
          _ _ _ _ _ _ "''e-1''"]
  by (simp add: JD_string_def)

text \<open>
  Claim C10. For every status outside 200, 400 and 500 both factories throw an error
  with one fixed message: the text between the double quotes of the source, in which
  \<^verbatim>\<open>${status}\<close> stands as written and is not replaced by the number.
\<close>

theorem invalid_status_message:
  "status \<notin> {200, 400, 500} \<Longrightarrow>
     responseDecoder errorDecoder dataDecoder status =
       Inl (Error ''Invalid status number: `${status}`'') \<and>
     authResponseDecoder errorDecoder dataDecoder status =
       Inl (Error ''Invalid status number: `${status}`'')"
  by (simp add: responseDecoder_def authResponseDecoder_def)

theorem invalid_status_message_witness:
  "(201::int) \<notin> {200, 400, 500} \<and> (404::int) \<notin> {200, 400, 500} \<and>
   responseDecoder JD_string JD_unknown 201 = responseDecoder JD_string JD_unknown 404 \<and>
   authResponseDecoder JD_string JD_unknown 201 =
     Inl (Error ''Invalid status number: `${status}`'')"
  using invalid_status_message [of 201 JD_string JD_unknown]
        invalid_status_message [of 404 JD_string JD_unknown]
  by simp

end
